theory Spec2Isabelle
  imports Main "HOL-Library.Sublist" "HOL-Library.AList"
begin

section \<open>Table extraction (src/api/extract\_tables.py)\<close>










section \<open>Values shared by the two command-line tools\<close>

text \<open>
  A decoded JSON document, as \<open>resp.json()\<close> and \<open>json.loads\<close> return it: Python's
  \<open>None\<close>, \<open>bool\<close>, number, \<open>str\<close>, \<open>list\<close> and \<open>dict\<close>. The code below never
  computes with a number; it only tests one for truth, so numbers are integers here. A
  \<open>dict\<close> is an association list read with \<open>map_of\<close>.
\<close>

datatype json =
    JNull
  | JBool bool
  | JNum int
  | JStr string
  | JArr "json list"
  | JObj "(string \<times> json) list"

text \<open>\<open>d.get(key, default)\<close>; \<open>d.get(key)\<close> is \<open>dict_get d key JNull\<close>.\<close>

definition dict_get :: "(string \<times> json) list \<Rightarrow> string \<Rightarrow> json \<Rightarrow> json" where
  "dict_get d key dflt = (case map_of d key of Some v \<Rightarrow> v | None \<Rightarrow> dflt)"

text \<open>Python's truth value of an object, as \<open>if x\<close>, \<open>not x\<close>, \<open>x or y\<close> and \<open>bool(x)\<close> use it.\<close>

fun truthy :: "json \<Rightarrow> bool" where
  "truthy JNull = False"
| "truthy (JBool b) = b"
| "truthy (JNum n) = (n \<noteq> 0)"
| "truthy (JStr s) = (s \<noteq> [])"
| "truthy (JArr xs) = (xs \<noteq> [])"
| "truthy (JObj kvs) = (kvs \<noteq> [])"

text \<open>
  The argument of each \<open>raise SystemExit(...)\<close> of the two tools, one constructor per
  raise statement, carrying what the message is formatted from.
\<close>

datatype exit_message =
    PollTimedOut
  | PollNonJson nat
  | UnexpectedStatus json
  | JobFailed json
  | GptTimeout
  | GptNonJson nat
  | GptError json
  | GptErrorAfterRetries json
  | GptEmptyContent json
  | GptParseFailure
  | GptFailedAfterRetries

text \<open>
  The exceptions that can travel through the code. In Python \<open>SystemExit\<close> derives from
  \<open>BaseException\<close> and not from \<open>Exception\<close>, so an \<open>except Exception\<close> clause does not
  catch it; every other exception listed here is an \<open>Exception\<close>.
\<close>

datatype exn =
    SystemExit exit_message
  | Timeout
  | ConnectionError
  | HTTPError nat
  | UnboundLocalError
  | AttributeError
  | TypeError
  | IndexError
  | KeyError
  | ValueError
  | OSError

fun is_Exception :: "exn \<Rightarrow> bool" where
  "is_Exception (SystemExit _) = False"
| "is_Exception _ = True"

text \<open>
  What one HTTP request comes back with: the \<open>requests\<close> call raises, or a response arrives
  whose body \<open>resp.json()\<close> cannot decode, or a response with a decoded body. The number is
  the status code. The decoded body is the variable \<open>data\<close> of the source; it is called
  \<open>payload\<close> here.
\<close>

datatype http_reply =
    Raises exn
  | NonJson nat
  | Json nat json

text \<open>
  \<open>resp.raise_for_status()\<close> followed by the \<open>raise SystemExit\<close> behind it, as both tools
  have it in the handler of a failed \<open>resp.json()\<close>: an \<open>HTTPError\<close> for a status from 400
  to 599, the tool's own exit otherwise.
\<close>

definition raise_for_status_then :: "nat \<Rightarrow> exit_message \<Rightarrow> exn" where
  "raise_for_status_then status msg =
     (if 400 \<le> status \<and> status < 600 then HTTPError status else SystemExit msg)"

section \<open>The polling client (src/extraction\_scripts/datalab\_marker.py)\<close>

text \<open>
  Time is explicit: \<open>now\<close> is what \<open>time.time()\<close> returns, in ticks of the clock, and the
  timeout and the poll interval are given in the same ticks. \<open>time.sleep\<close> advances the clock by
  its argument and raises \<open>ValueError\<close> on a negative one; the \<open>k\<close>-th request (counted
  from 0) takes \<open>fst (remote k)\<close> ticks and comes back with \<open>snd (remote k)\<close>. The result is
  what the call returns or raises, the clock at that moment and the number of requests made.
  The loop has no bound of its own, so not returning is the value \<open>None\<close>.
\<close>

definition poll_finish :: "(string \<times> json) list \<Rightarrow> exn + json" where
  "poll_finish last_data =
     (if \<not> truthy (dict_get last_data ''success'' (JBool False))
      then Inl (SystemExit (JobFailed (dict_get last_data ''error'' (JStr ''Unknown error''))))
      else Inr (JObj last_data))"

text \<open>A list or a dict cannot be looked up in a set: \<open>status not in {...}\<close> raises \<open>TypeError\<close>.\<close>

fun unhashable :: "json \<Rightarrow> bool" where
  "unhashable (JArr _) = True"
| "unhashable (JObj _) = True"
| "unhashable _ = False"

text \<open>
  One turn of the \<open>while True\<close> loop: it ends the call (\<open>Stop\<close>: a \<open>raise\<close>, or the
  \<open>break\<close> and the code behind the loop), or the loop goes round again (\<open>Again\<close>) with the
  clock advanced.
\<close>

datatype iteration = Stop "(exn + json) \<times> int \<times> nat" | Again int

definition poll_iteration ::
  "(nat \<Rightarrow> nat \<times> http_reply) \<Rightarrow> int \<Rightarrow> int \<Rightarrow> int \<Rightarrow> int \<Rightarrow> nat \<Rightarrow> iteration" where
  "poll_iteration remote timeout_s poll_interval_s start now k =
     (if now - start > timeout_s then Stop (Inl (SystemExit PollTimedOut), now, k)
      else if poll_interval_s < 0 then Stop (Inl ValueError, now, k)
      else
        (let now' = now + poll_interval_s + int (fst (remote k)) in
         case snd (remote k) of
           Raises e \<Rightarrow> Stop (Inl e, now', Suc k)
         | NonJson status \<Rightarrow>
             Stop (Inl (raise_for_status_then status (PollNonJson status)), now', Suc k)
         | Json status payload \<Rightarrow>
             (case payload of
                JObj d \<Rightarrow>
                  (let status = dict_get d ''status'' JNull in
                   if status = JStr ''complete'' then Stop (poll_finish d, now', Suc k)
                   else if unhashable status then Stop (Inl TypeError, now', Suc k)
                   else if status \<notin> {JStr ''complete'', JStr ''processing'', JNull}
                   then Stop (Inl (SystemExit (UnexpectedStatus status)), now', Suc k)
                   else Again now')
              | _ \<Rightarrow> Stop (Inl AttributeError, now', Suc k))))"

partial_function (option) poll_loop ::
  "(nat \<Rightarrow> nat \<times> http_reply) \<Rightarrow> int \<Rightarrow> int \<Rightarrow> int \<Rightarrow> int \<Rightarrow> nat
     \<Rightarrow> ((exn + json) \<times> int \<times> nat) option" where
  "poll_loop remote timeout_s poll_interval_s start now k =
     (case poll_iteration remote timeout_s poll_interval_s start now k of
        Stop result \<Rightarrow> Some result
      | Again now' \<Rightarrow> poll_loop remote timeout_s poll_interval_s start now' (Suc k))"

definition poll_until_complete ::
  "(nat \<Rightarrow> nat \<times> http_reply) \<Rightarrow> int \<Rightarrow> int \<Rightarrow> int \<Rightarrow> ((exn + json) \<times> int \<times> nat) option" where
  "poll_until_complete remote timeout_s poll_interval_s start =
     poll_loop remote timeout_s poll_interval_s start start 0"

text \<open>Two properties of a result of the loop, used in the proofs about it.\<close>

definition returned_ok ::
  "(nat \<Rightarrow> nat \<times> http_reply) \<Rightarrow> nat \<Rightarrow> (exn + json) \<times> int \<times> nat \<Rightarrow> bool" where
  "returned_ok remote k y =
     (case y of
        (Inr r, t, k') \<Rightarrow>
          (\<exists>d c. r = JObj d \<and> dict_get d ''status'' JNull = JStr ''complete''
             \<and> truthy (dict_get d ''success'' (JBool False))
             \<and> k < k' \<and> snd (remote (k' - 1)) = Json c (JObj d))
      | _ \<Rightarrow> True)"

definition in_time ::
  "(nat \<Rightarrow> nat \<times> http_reply) \<Rightarrow> int \<Rightarrow> int \<Rightarrow> int \<Rightarrow> (exn + json) \<times> int \<times> nat \<Rightarrow> bool" where
  "in_time remote T I s y =
     (case y of (r, t, n) \<Rightarrow>
        r = Inl (SystemExit PollTimedOut) \<or> r = Inl ValueError
        \<or> (0 < n \<and> t \<le> s + T + I + int (fst (remote (n - 1)))))"

text \<open>Remote ends for concrete runs of the polling client.\<close>

definition complete_at_once :: "nat \<Rightarrow> nat \<times> http_reply" where
  "complete_at_once k =
     (0, Json 200 (JObj [(''status'', JStr ''complete''), (''success'', JBool True)]))"

definition scripted_job :: "nat \<Rightarrow> nat \<times> http_reply" where
  "scripted_job k =
     (if k = 0 then (0, Json 200 (JObj [(''status'', JStr ''complete''), (''success'', JBool True)]))
      else if k = 1 then
        (0, Json 200 (JObj [(''status'', JStr ''complete''), (''success'', JBool False),
                            (''error'', JStr ''boom'')]))
      else (0, Json 200 (JObj [(''status'', JStr ''failed'')])))"

section \<open>Files\<close>

text \<open>
  The file system as the tools see it: a map from paths to contents. A file written with
  \<open>json.dumps\<close> is represented by the document it encodes (\<open>json.loads\<close> of its text
  gives that document back, which is the library's contract and not this repository's
  code), any other file by its text.
\<close>

datatype file_content = JsonText json | Raw string

type_synonym files = "string \<rightharpoonup> file_content"

definition save_json :: "json \<Rightarrow> string \<Rightarrow> files \<Rightarrow> files" where
  "save_json obj out_path fs = fs(out_path \<mapsto> JsonText obj)"

text \<open>\<open>out_dir / name\<close>.\<close>

definition path_join :: "string \<Rightarrow> string \<Rightarrow> string" where
  "path_join dir name = dir @ ''/'' @ name"

section \<open>The extraction artifact (main of datalab\_marker.py)\<close>

text \<open>\<open>isinstance(val, (dict, list))\<close>.\<close>

fun is_dict_or_list :: "json \<Rightarrow> bool" where
  "is_dict_or_list (JObj _) = True"
| "is_dict_or_list (JArr _) = True"
| "is_dict_or_list _ = False"

definition extraction_keys :: "string list" where
  "extraction_keys =
     [''json'', ''structured_output'', ''structured_data'', ''extractions'', ''extracted'']"

text \<open>The \<open>for key in extraction_keys\<close> loop with its \<open>break\<close>.\<close>

fun extraction_scan :: "string list \<Rightarrow> (string \<times> json) list \<Rightarrow> json option" where
  "extraction_scan [] result = None"
| "extraction_scan (key # keys) result =
     (let val = dict_get result key JNull in
      if is_dict_or_list val then Some val else extraction_scan keys result)"

text \<open>
  The block of \<open>main\<close> behind the comment ``If a schema was provided'': \<open>page_schema_json\<close>
  is \<open>None\<close> when no schema file was given, \<open>result\<close> is what the polling returned.
\<close>

definition extra_json_path :: "string \<Rightarrow> string \<Rightarrow> string" where
  "extra_json_path out_dir base_name = path_join out_dir (base_name @ ''-extractions.json'')"

definition save_extraction ::
  "string \<Rightarrow> string \<Rightarrow> string option \<Rightarrow> (string \<times> json) list \<Rightarrow> files \<Rightarrow> files" where
  "save_extraction out_dir base_name page_schema_json result fs =
     (case page_schema_json of
        None \<Rightarrow> fs
      | Some _ \<Rightarrow>
          (case extraction_scan extraction_keys result of
             None \<Rightarrow> fs
           | Some extraction_obj \<Rightarrow>
               save_json extraction_obj (extra_json_path out_dir base_name) fs))"

section \<open>The vision client (call\_gpt\_vision\_json of graphify\_images.py)\<close>

text \<open>
  The request body: the two optional fields the client may drop, and the chat messages.
  The model name and the texts are fixed for a call and play no part in its control flow.
\<close>

datatype chat_message = SystemInstruction | StrictJsonInstruction | UserInstruction

record request_body =
  has_temperature :: bool
  has_response_format :: bool
  chat_messages :: "chat_message list"

definition base_body :: request_body where
  "base_body = \<lparr> has_temperature = True, has_response_format = True,
                  chat_messages = [SystemInstruction, UserInstruction] \<rparr>"

definition max_attempts :: nat where
  "max_attempts = 3"

text \<open>The argument of \<open>time.sleep\<close>, in seconds: \<open>min(2 ** (attempt - 1), 8)\<close>.\<close>

definition backoff :: "nat \<Rightarrow> nat" where
  "backoff attempt = min (2 ^ (attempt - 1)) 8"

text \<open>
  \<open>str.lower()\<close> and the substring test \<open>sub in s\<close>. Only the ASCII letters are
  mapped: Python maps a letter beyond ASCII to a character beyond ASCII, which no character
  of the two ASCII words looked for equals, so the tests below give the same answer.
\<close>

definition lower_char :: "char \<Rightarrow> char" where
  "lower_char c =
     (case map_of (zip ''ABCDEFGHIJKLMNOPQRSTUVWXYZ'' ''abcdefghijklmnopqrstuvwxyz'') c of
        Some l \<Rightarrow> l
      | None \<Rightarrow> c)"

definition lower :: "string \<Rightarrow> string" where
  "lower s = map lower_char s"

fun contains :: "string \<Rightarrow> string \<Rightarrow> bool" where
  "contains sub [] = (sub = [])"
| "contains sub (c # cs) = (prefix sub (c # cs) \<or> contains sub cs)"

text \<open>
  \<open>err = data.get("error", {}) if isinstance(data, dict) else {}\<close>, and the two reads
  \<open>err.get("param")\<close> and \<open>err.get("message", "")\<close>, which raise \<open>AttributeError\<close> when
  \<open>err\<close> is not a dict.
\<close>

definition error_of :: "json \<Rightarrow> json" where
  "error_of payload = (case payload of JObj d \<Rightarrow> dict_get d ''error'' (JObj []) | _ \<Rightarrow> JObj [])"

definition param_and_message :: "json \<Rightarrow> exn + json \<times> json" where
  "param_and_message err =
     (case err of
        JObj e \<Rightarrow> Inr (dict_get e ''param'' JNull, dict_get e ''message'' (JStr []))
      | _ \<Rightarrow> Inl AttributeError)"

text \<open>
  \<open>param == field or (field in message.lower() and "unsupported" in message.lower())\<close>:
  the right operand is only evaluated when the left one is false, and then
  \<open>message.lower()\<close> raises \<open>AttributeError\<close> unless the message is a string.
\<close>

definition names_unsupported :: "string \<Rightarrow> json \<Rightarrow> json \<Rightarrow> exn + bool" where
  "names_unsupported field param message =
     (if param = JStr field then Inr True
      else case message of
             JStr m \<Rightarrow> Inr (contains field (lower m) \<and> contains ''unsupported'' (lower m))
           | _ \<Rightarrow> Inl AttributeError)"

text \<open>\<open>x[0]\<close> on a decoded value.\<close>

fun subscript0 :: "json \<Rightarrow> exn + json" where
  "subscript0 (JArr []) = Inl IndexError"
| "subscript0 (JArr (x # _)) = Inr x"
| "subscript0 (JStr []) = Inl IndexError"
| "subscript0 (JStr (c # _)) = Inr (JStr [c])"
| "subscript0 (JObj _) = Inl KeyError"
| "subscript0 _ = Inl TypeError"

text \<open>\<open>data.get("choices", [{}])[0].get("message", {}).get("content")\<close>.\<close>

definition content_of :: "json \<Rightarrow> exn + json" where
  "content_of payload =
     (case payload of
        JObj d \<Rightarrow>
          (case subscript0 (dict_get d ''choices'' (JArr [JObj []])) of
             Inl e \<Rightarrow> Inl e
           | Inr (JObj choice) \<Rightarrow>
               (case dict_get choice ''message'' (JObj []) of
                  JObj m \<Rightarrow> Inr (dict_get m ''content'' JNull)
                | _ \<Rightarrow> Inl AttributeError)
           | Inr _ \<Rightarrow> Inl AttributeError)
      | _ \<Rightarrow> Inl AttributeError)"

text \<open>
  The end of a successful attempt. \<open>json_loads\<close> is the library's parser, \<open>None\<close> where it
  raises. It raises \<open>TypeError\<close> on a content that is no string; the handler then formats
  \<open>content[:500]\<close>, which works on a list and raises again on a number, a bool or a dict.
\<close>

definition parse_content :: "(string \<Rightarrow> json option) \<Rightarrow> json \<Rightarrow> exn + json" where
  "parse_content json_loads payload =
     (case content_of payload of
        Inl e \<Rightarrow> Inl e
      | Inr content \<Rightarrow>
          if \<not> truthy content then Inl (SystemExit (GptEmptyContent payload))
          else (case content of
                  JStr text \<Rightarrow>
                    (case json_loads text of
                       Some parsed \<Rightarrow> Inr parsed
                     | None \<Rightarrow> Inl (SystemExit GptParseFailure))
                | JArr _ \<Rightarrow> Inl (SystemExit GptParseFailure)
                | _ \<Rightarrow> Inl TypeError))"

text \<open>
  One turn of the \<open>for attempt in range(1, max_attempts + 1)\<close> loop on the reply of its
  request: the call ends (\<open>Finish\<close>), or the loop sleeps and continues (\<open>Retry\<close>) with the
  body and with \<open>resp\<close>, the status of the last response received. \<open>resp\<close> is unbound
  (\<open>None\<close>) until a response arrives, and the handler of an exception that is no timeout
  reads it.
\<close>

datatype attempt_end = Finish "exn + json" | Retry request_body "nat option"

definition retry_or :: "nat \<Rightarrow> exit_message \<Rightarrow> request_body \<Rightarrow> nat option \<Rightarrow> attempt_end" where
  "retry_or attempt msg body resp =
     (if attempt = max_attempts then Finish (Inl (SystemExit msg)) else Retry body resp)"

definition attempt_once ::
  "(string \<Rightarrow> json option) \<Rightarrow> http_reply \<Rightarrow> nat \<Rightarrow> request_body \<Rightarrow> nat option \<Rightarrow> attempt_end" where
  "attempt_once json_loads reply attempt body resp =
     (case reply of
        Raises e \<Rightarrow>
          if e = Timeout then retry_or attempt GptTimeout body resp
          else if \<not> is_Exception e then Finish (Inl e)
          else (case resp of
                  None \<Rightarrow> Finish (Inl UnboundLocalError)
                | Some status \<Rightarrow> Finish (Inl (raise_for_status_then status (GptNonJson status))))
      | NonJson status \<Rightarrow> Finish (Inl (raise_for_status_then status (GptNonJson status)))
      | Json status payload \<Rightarrow>
          if status \<ge> 400 then
            (case param_and_message (error_of payload) of
               Inl e \<Rightarrow> Finish (Inl e)
             | Inr (param, message) \<Rightarrow>
                 (case names_unsupported ''temperature'' param message of
                    Inl e \<Rightarrow> Finish (Inl e)
                  | Inr True \<Rightarrow>
                      retry_or attempt (GptError payload)
                        (if has_temperature body then body\<lparr> has_temperature := False \<rparr> else body)
                        (Some status)
                  | Inr False \<Rightarrow>
                      (case names_unsupported ''response_format'' param message of
                         Inl e \<Rightarrow> Finish (Inl e)
                       | Inr True \<Rightarrow>
                           retry_or attempt (GptError payload)
                             (if has_response_format body
                              then body\<lparr> has_response_format := False,
                                         chat_messages := StrictJsonInstruction # chat_messages body \<rparr>
                              else body)
                             (Some status)
                       | Inr False \<Rightarrow>
                           if status = 429 \<or> (500 \<le> status \<and> status < 600)
                           then retry_or attempt (GptErrorAfterRetries payload) body (Some status)
                           else Finish (Inl (SystemExit (GptError payload))))))
          else Finish (parse_content json_loads payload))"

text \<open>
  What a call leaves behind besides its result: the body of every request sent, in order,
  and the argument of every \<open>time.sleep\<close>.
\<close>

record call_trace =
  requests_sent :: "request_body list"
  sleeps :: "nat list"

function attempt_loop ::
  "(string \<Rightarrow> json option) \<Rightarrow> (nat \<Rightarrow> request_body \<Rightarrow> http_reply) \<Rightarrow> nat \<Rightarrow> request_body
     \<Rightarrow> nat option \<Rightarrow> call_trace \<Rightarrow> (exn + json) \<times> call_trace" where
  "attempt_loop json_loads remote attempt body resp tr =
     (if attempt > max_attempts then (Inl (SystemExit GptFailedAfterRetries), tr)
      else
        (let tr1 = tr\<lparr> requests_sent := requests_sent tr @ [body] \<rparr> in
         case attempt_once json_loads (remote attempt body) attempt body resp of
           Finish result \<Rightarrow> (result, tr1)
         | Retry body' resp' \<Rightarrow>
             attempt_loop json_loads remote (attempt + 1) body' resp'
               (tr1\<lparr> sleeps := sleeps tr1 @ [backoff attempt] \<rparr>)))"
  by pat_completeness auto
termination
  by (relation "measure (\<lambda>(json_loads, remote, attempt, body, resp, tr). max_attempts + 1 - attempt)")
     auto

declare attempt_loop.simps [simp del]

text \<open>
  The call: the image is read first (\<open>path.read_bytes()\<close> raises \<open>OSError\<close> on a file that
  cannot be read), then the loop starts at attempt 1 with the full body. \<open>remote attempt body\<close>
  is the reply to the request of that attempt.
\<close>

definition call_gpt_vision_json ::
  "(string \<Rightarrow> json option) \<Rightarrow> bool \<Rightarrow> (nat \<Rightarrow> request_body \<Rightarrow> http_reply)
     \<Rightarrow> (exn + json) \<times> call_trace" where
  "call_gpt_vision_json json_loads readable remote =
     (if \<not> readable then (Inl OSError, \<lparr> requests_sent = [], sleeps = [] \<rparr>)
      else attempt_loop json_loads remote 1 base_body None \<lparr> requests_sent = [], sleeps = [] \<rparr>)"

text \<open>
  Concrete ends for runs of the vision client: a parser that knows the text \<open>{}\<close> only, a
  remote end that never answers in time, and one that rejects the temperature field and
  answers with an empty JSON object once the field is gone.
\<close>

definition loads_empty_object :: "string \<Rightarrow> json option" where
  "loads_empty_object text = (if text = ''{}'' then Some (JObj []) else None)"

definition always_timeout :: "nat \<Rightarrow> request_body \<Rightarrow> http_reply" where
  "always_timeout attempt body = Raises Timeout"

definition temperature_rejected :: "nat \<Rightarrow> request_body \<Rightarrow> http_reply" where
  "temperature_rejected attempt body =
     (if has_temperature body
      then Json 400 (JObj [(''error'', JObj [(''message'', JStr ''Unsupported parameter: temperature'')])])
      else Json 200 (JObj [(''choices'', JArr [JObj [(''message'', JObj [(''content'', JStr ''{}'')])]])]))"

section \<open>The sandbox (execute\_generated\_code of graphify\_images.py)\<close>

text \<open>
  The generated code is untrusted input. What matters of it to the parent is how its two
  phases end and which files they write: the module body (the imports, \<open>compile\<close> and
  \<open>exec\<close> of the child) and, when the body leaves a callable \<open>recreate_plot\<close> behind,
  the call \<open>recreate_plot(output_path)\<close>. A phase completes, raises an \<open>Exception\<close>, ends
  the child process without one (\<open>sys.exit\<close>, a crash), or is still running when the
  parent's \<open>join\<close> times out.
\<close>

datatype phase_end = Completes | RaisesException | ExitsProcess | Overruns

record generated_code =
  module_end :: phase_end
  module_writes :: "(string \<times> string) list"
  defines_recreate_plot :: bool
  recreate_end :: "string \<Rightarrow> phase_end"
  recreate_writes :: "string \<Rightarrow> (string \<times> string) list"

fun write_all :: "(string \<times> string) list \<Rightarrow> files \<Rightarrow> files" where
  "write_all [] fs = fs"
| "write_all ((path, text) # rest) fs = write_all rest (fs(path \<mapsto> Raw text))"

text \<open>The one message the child may put on the queue: \<open>{"ok": True}\<close> or an error.\<close>

datatype child_message = Ok | Failed string

record child_run =
  queue_message :: "child_message option"
  is_alive :: bool
  child_files :: files

definition exec_child :: "generated_code \<Rightarrow> string \<Rightarrow> files \<Rightarrow> child_run" where
  "exec_child code output_path fs =
     (let fs1 = write_all (module_writes code) fs in
      case module_end code of
        RaisesException \<Rightarrow>
          \<lparr> queue_message = Some (Failed ''Execution error''), is_alive = False, child_files = fs1 \<rparr>
      | ExitsProcess \<Rightarrow> \<lparr> queue_message = None, is_alive = False, child_files = fs1 \<rparr>
      | Overruns \<Rightarrow> \<lparr> queue_message = None, is_alive = True, child_files = fs1 \<rparr>
      | Completes \<Rightarrow>
          if \<not> defines_recreate_plot code
          then \<lparr> queue_message = Some (Failed ''No recreate_plot(output_path: str) found''),
                 is_alive = False, child_files = fs1 \<rparr>
          else
            (let fs2 = write_all (recreate_writes code output_path) fs1 in
             case recreate_end code output_path of
               Completes \<Rightarrow> \<lparr> queue_message = Some Ok, is_alive = False, child_files = fs2 \<rparr>
             | RaisesException \<Rightarrow>
                 \<lparr> queue_message = Some (Failed ''Execution error''), is_alive = False,
                   child_files = fs2 \<rparr>
             | ExitsProcess \<Rightarrow> \<lparr> queue_message = None, is_alive = False, child_files = fs2 \<rparr>
             | Overruns \<Rightarrow> \<lparr> queue_message = None, is_alive = True, child_files = fs2 \<rparr>))"

text \<open>
  The parent: it kills a child that is alive after the join, reads the queue otherwise, and
  returns the pair (success, error). It opens, checks and removes no file itself.
\<close>

definition execute_generated_code ::
  "generated_code \<Rightarrow> string \<Rightarrow> files \<Rightarrow> (bool \<times> string option) \<times> files" where
  "execute_generated_code python_code output_path fs =
     (let p = exec_child python_code output_path fs in
      if is_alive p then ((False, Some ''Execution timed out''), child_files p)
      else (case queue_message p of
              None \<Rightarrow> ((False, Some ''No result returned from execution''), child_files p)
            | Some Ok \<Rightarrow> ((True, None), child_files p)
            | Some (Failed err) \<Rightarrow>
                ((False, Some (if err \<noteq> [] then err else ''Unknown execution error'')),
                 child_files p)))"

text \<open>Generated code for concrete runs of the sandbox.\<close>

definition writes_nothing :: generated_code where
  "writes_nothing = \<lparr> module_end = Completes, module_writes = [], defines_recreate_plot = True,
     recreate_end = (\<lambda>output_path. Completes), recreate_writes = (\<lambda>output_path. []) \<rparr>"

definition writes_then_raises :: generated_code where
  "writes_then_raises = \<lparr> module_end = Completes, module_writes = [], defines_recreate_plot = True,
     recreate_end = (\<lambda>output_path. RaisesException),
     recreate_writes = (\<lambda>output_path. [(output_path, ''partial'')]) \<rparr>"

definition draws_plot :: generated_code where
  "draws_plot = \<lparr> module_end = Completes, module_writes = [], defines_recreate_plot = True,
     recreate_end = (\<lambda>output_path. Completes),
     recreate_writes = (\<lambda>output_path. [(output_path, ''png'')]) \<rparr>"

section \<open>The per-image step and the batch (detect\_and\_reconstruct\_graphs)\<close>

text \<open>
  \<open>sanitize_filename\<close>: \<open>re.sub(r"[^A-Za-z0-9_.-]+", "-", name).strip("-")\<close>, or
  \<open>untitled\<close> when nothing is left. \<open>dashes\<close> replaces every maximal run of other
  characters by one dash; its flag says that the run has begun.
\<close>

definition allowed_char :: "char \<Rightarrow> bool" where
  "allowed_char c =
     (let n = (of_char c :: nat) in
      (65 \<le> n \<and> n \<le> 90) \<or> (97 \<le> n \<and> n \<le> 122) \<or> (48 \<le> n \<and> n \<le> 57)
      \<or> c = CHR ''_'' \<or> c = CHR ''.'' \<or> c = CHR ''-'')"

fun dashes :: "bool \<Rightarrow> string \<Rightarrow> string" where
  "dashes in_run [] = []"
| "dashes in_run (c # cs) =
     (if allowed_char c then c # dashes False cs
      else if in_run then dashes True cs
      else CHR ''-'' # dashes True cs)"

definition sanitize_filename :: "string \<Rightarrow> string" where
  "sanitize_filename name =
     (let cleaned = rev (dropWhile (\<lambda>c. c = CHR ''-'')
                      (rev (dropWhile (\<lambda>c. c = CHR ''-'') (dashes False name))))
      in if cleaned \<noteq> [] then cleaned else ''untitled'')"

text \<open>
  What the batch meets outside the program, per image path: whether the image file can be
  read, the replies of the vision endpoint to the requests for it, the library's JSON parser,
  whether a path can be written, what a piece of generated code does when run, \<open>Path.stem\<close>,
  and the order in which the pool's futures complete (a permutation of the submitted images).
\<close>

record environment =
  env_readable :: "string \<Rightarrow> bool"
  env_remote :: "string \<Rightarrow> nat \<Rightarrow> request_body \<Rightarrow> http_reply"
  env_loads :: "string \<Rightarrow> json option"
  env_writable :: "string \<Rightarrow> bool"
  env_program :: "string \<Rightarrow> generated_code"
  env_stem :: "string \<Rightarrow> string"
  env_completed :: "string list \<Rightarrow> string list"

record batch_entry =
  entry_image :: string
  entry_json :: "string option"
  entry_reconstructed :: "string option"
  entry_is_graph :: bool
  entry_graph_type :: json
  entry_error :: json

text \<open>\<open>d.setdefault(key, value)\<close> and \<open>isinstance(x, str)\<close>.\<close>

definition setdefault :: "(string \<times> json) list \<Rightarrow> string \<Rightarrow> json \<Rightarrow> (string \<times> json) list" where
  "setdefault d key v = (case map_of d key of None \<Rightarrow> d @ [(key, v)] | Some _ \<Rightarrow> d)"

fun is_str :: "json \<Rightarrow> bool" where
  "is_str (JStr _) = True"
| "is_str _ = False"

text \<open>
  The first \<open>try\<close> of \<open>_process\<close>: \<open>except Exception\<close> turns an \<open>Exception\<close> of the call
  into a result with \<open>is_graph\<close> false and an error; any other exception passes through it. The
  \<open>else\<close> branch runs outside the protection of the \<open>try\<close>, so \<open>setdefault\<close> on a parsed
  reply that is no dict raises \<open>AttributeError\<close> out of \<open>_process\<close>.
\<close>

definition classify_result :: "environment \<Rightarrow> string \<Rightarrow> exn + (string \<times> json) list" where
  "classify_result env img_path =
     (case fst (call_gpt_vision_json (env_loads env) (env_readable env img_path)
                  (env_remote env img_path)) of
        Inl exc \<Rightarrow>
          if is_Exception exc
          then Inr [(''is_graph'', JBool False), (''error'', JStr ''GPT call failed'')]
          else Inl exc
      | Inr (JObj d) \<Rightarrow> Inr (setdefault d ''is_graph'' (JBool False))
      | Inr _ \<Rightarrow> Inl AttributeError)"

text \<open>
  The second \<open>try\<close>: the raw result is written, or, when the write fails, the error of the
  result becomes \<open>(result.get("error") or "") + " | save-json-error: ..."\<close>, which raises
  \<open>TypeError\<close> when the old error is true and not a string.
\<close>

definition save_result ::
  "environment \<Rightarrow> string \<Rightarrow> (string \<times> json) list \<Rightarrow> files
     \<Rightarrow> exn + (string \<times> json) list \<times> files" where
  "save_result env json_path result fs =
     (if env_writable env json_path then Inr (result, save_json (JObj result) json_path fs)
      else
        (let old = dict_get result ''error'' JNull in
         if \<not> truthy old
         then Inr (AList.update ''error'' (JStr '' | save-json-error'') result, fs)
         else (case old of
                 JStr text \<Rightarrow>
                   Inr (AList.update ''error'' (JStr (text @ '' | save-json-error'')) result, fs)
               | _ \<Rightarrow> Inl TypeError)))"

definition json_path_of :: "environment \<Rightarrow> string \<Rightarrow> string \<Rightarrow> string" where
  "json_path_of env out_dir img_path =
     path_join out_dir (sanitize_filename (env_stem env img_path) @ ''.graph.json'')"

definition recon_path_of :: "environment \<Rightarrow> string \<Rightarrow> string \<Rightarrow> string" where
  "recon_path_of env out_dir img_path =
     path_join out_dir (sanitize_filename (env_stem env img_path) @ ''.reconstructed.png'')"

text \<open>
  \<open>_process\<close>: what it returns or raises, the files afterwards, and the sandbox runs it
  started, each with its code and its output path.
\<close>

record process_result =
  outcome :: "exn + batch_entry"
  files_after :: files
  executions :: "(string \<times> string) list"

fun str_of :: "json \<Rightarrow> string" where
  "str_of (JStr text) = text"
| "str_of _ = []"

definition process :: "environment \<Rightarrow> string \<Rightarrow> bool \<Rightarrow> string \<Rightarrow> files \<Rightarrow> process_result" where
  "process env out_dir execute img_path fs =
     (let json_path = json_path_of env out_dir img_path;
          recon_path = recon_path_of env out_dir img_path
      in case classify_result env img_path of
           Inl exc \<Rightarrow> \<lparr> outcome = Inl exc, files_after = fs, executions = [] \<rparr>
         | Inr result0 \<Rightarrow>
             (case save_result env json_path result0 fs of
                Inl exc \<Rightarrow> \<lparr> outcome = Inl exc, files_after = fs, executions = [] \<rparr>
              | Inr (result, fs1) \<Rightarrow>
                  (let python_code = dict_get result ''python_code'' JNull;
                       attempted = (execute \<and> truthy (dict_get result ''is_graph'' JNull)
                                    \<and> is_str python_code);
                       ((reconstructed_ok, exec_error), fs2) =
                         (if attempted
                          then execute_generated_code (env_program env (str_of python_code))
                                 recon_path fs1
                          else ((False, None), fs1))
                   in \<lparr> outcome = Inr
                          \<lparr> entry_image = img_path, entry_json = Some json_path,
                            entry_reconstructed =
                              (if reconstructed_ok then Some recon_path else None),
                            entry_is_graph = truthy (dict_get result ''is_graph'' JNull),
                            entry_graph_type = dict_get result ''graph_type'' JNull,
                            entry_error =
                              (if truthy (dict_get result ''error'' JNull)
                               then dict_get result ''error'' JNull
                               else (case exec_error of None \<Rightarrow> JNull
                                     | Some text \<Rightarrow> JStr text)) \<rparr>,
                        files_after = fs2,
                        executions =
                          (if attempted then [(str_of python_code, recon_path)] else []) \<rparr>)))"

text \<open>
  The entry that the loop over the completed futures records for a worker whose
  \<open>fut.result()\<close> raised an \<open>Exception\<close>.
\<close>

definition worker_error_entry :: "string \<Rightarrow> batch_entry" where
  "worker_error_entry img_path =
     \<lparr> entry_image = img_path, entry_json = None, entry_reconstructed = None,
       entry_is_graph = False, entry_graph_type = JNull, entry_error = JStr ''worker-error'' \<rparr>"

text \<open>\<open>images[:max_images]\<close>: a negative bound counts from the end of the list.\<close>

definition py_take :: "int \<Rightarrow> 'a list \<Rightarrow> 'a list" where
  "py_take n xs = (if 0 \<le> n then take (nat n) xs else take (length xs - nat (- n)) xs)"

text \<open>
  The sequential branch, \<open>for p in images: summary.append(_process(p))\<close>: nothing catches
  what \<open>_process\<close> raises.
\<close>

fun sequential ::
  "environment \<Rightarrow> string \<Rightarrow> bool \<Rightarrow> string list \<Rightarrow> batch_entry list \<Rightarrow> files
     \<Rightarrow> (exn + batch_entry list) \<times> files" where
  "sequential env out_dir execute [] summary fs = (Inr summary, fs)"
| "sequential env out_dir execute (p # images) summary fs =
     (let r = process env out_dir execute p fs in
      case outcome r of
        Inl exc \<Rightarrow> (Inl exc, files_after r)
      | Inr entry \<Rightarrow> sequential env out_dir execute images (summary @ [entry]) (files_after r))"

text \<open>
  The pool branch. Every submitted \<open>_process\<close> runs to its end, and the futures are visited
  in the order of completion. \<open>fut.result()\<close> raises again what the worker raised:
  \<open>except Exception\<close> records a worker-error entry for an \<open>Exception\<close>, and anything else
  leaves the loop and the function.
\<close>

fun run_workers ::
  "environment \<Rightarrow> string \<Rightarrow> bool \<Rightarrow> string list \<Rightarrow> files
     \<Rightarrow> (string \<times> (exn + batch_entry)) list \<times> files" where
  "run_workers env out_dir execute [] fs = ([], fs)"
| "run_workers env out_dir execute (p # images) fs =
     (let r = process env out_dir execute p fs;
          (futures, fs') = run_workers env out_dir execute images (files_after r)
      in ((p, outcome r) # futures, fs'))"

fun collect ::
  "(string \<times> (exn + batch_entry)) list \<Rightarrow> batch_entry list \<Rightarrow> exn + batch_entry list" where
  "collect [] summary = Inr summary"
| "collect ((p, Inr entry) # futures) summary = collect futures (summary @ [entry])"
| "collect ((p, Inl exc) # futures) summary =
     (if is_Exception exc then collect futures (summary @ [worker_error_entry p]) else Inl exc)"

text \<open>The summary as it is written to \<open>summary.json\<close>.\<close>

definition entry_to_json :: "batch_entry \<Rightarrow> json" where
  "entry_to_json entry =
     JObj [(''image'', JStr (entry_image entry)),
           (''json'', (case entry_json entry of None \<Rightarrow> JNull | Some path \<Rightarrow> JStr path)),
           (''reconstructed'',
              (case entry_reconstructed entry of None \<Rightarrow> JNull | Some path \<Rightarrow> JStr path)),
           (''is_graph'', JBool (entry_is_graph entry)),
           (''graph_type'', entry_graph_type entry),
           (''error'', entry_error entry)]"

text \<open>
  The batch: \<open>images\<close> is what \<open>iter_images\<close> yields, the sorted image files of the
  directory. The result is the returned \<open>count\<close> together with the summary list, or the
  exception that ended the call.
\<close>

record batch_result =
  summary_entries :: "batch_entry list"
  count :: nat

definition detect_and_reconstruct_graphs ::
  "environment \<Rightarrow> string list \<Rightarrow> string \<Rightarrow> bool \<Rightarrow> int option \<Rightarrow> int \<Rightarrow> files
     \<Rightarrow> (exn + batch_result) \<times> files" where
  "detect_and_reconstruct_graphs env images out_dir execute max_images concurrency fs =
     (let images1 = (case max_images of None \<Rightarrow> images | Some n \<Rightarrow> py_take n images);
          (collected, fs1) =
            (if concurrency > 1
             then (let (futures, fs') =
                         run_workers env out_dir execute (env_completed env images1) fs
                   in (collect futures [], fs'))
             else sequential env out_dir execute images1 [] fs)
      in case collected of
           Inl exc \<Rightarrow> (Inl exc, fs1)
         | Inr summary \<Rightarrow>
             (let summary_path = path_join out_dir ''summary.json'' in
              if env_writable env summary_path
              then (Inr \<lparr> summary_entries = summary, count = length summary \<rparr>,
                    save_json (JArr (map entry_to_json summary)) summary_path fs1)
              else (Inl OSError, fs1)))"

text \<open>
  Concrete surroundings for runs of the batch: every file can be read and written, the stem
  of a path is the path, and futures complete in the order of submission. With
  \<open>timeout_env\<close> the endpoint never answers in time; with \<open>rejecting_env\<close> it answers
  every request with HTTP 401 and a JSON body; with \<open>plot_env\<close> it answers with a graph
  whose code is the text \<open>plot\<close>, which draws the file it is asked for.
\<close>

definition unauthorized :: "nat \<Rightarrow> request_body \<Rightarrow> http_reply" where
  "unauthorized attempt body = Json 401 (JObj [(''error'', JObj [(''message'', JStr ''bad key'')])])"

definition graph_reply :: "nat \<Rightarrow> request_body \<Rightarrow> http_reply" where
  "graph_reply attempt body =
     Json 200 (JObj [(''choices'', JArr [JObj [(''message'', JObj [(''content'', JStr ''graph'')])]])])"

definition loads_graph :: "string \<Rightarrow> json option" where
  "loads_graph text =
     (if text = ''graph''
      then Some (JObj [(''is_graph'', JBool True), (''python_code'', JStr ''plot'')])
      else None)"

definition timeout_env :: environment where
  "timeout_env = \<lparr> env_readable = (\<lambda>p. True), env_remote = (\<lambda>p. always_timeout),
     env_loads = loads_empty_object, env_writable = (\<lambda>p. True),
     env_program = (\<lambda>code. writes_nothing), env_stem = (\<lambda>p. p),
     env_completed = (\<lambda>images. images) \<rparr>"

definition rejecting_env :: environment where
  "rejecting_env = \<lparr> env_readable = (\<lambda>p. True), env_remote = (\<lambda>p. unauthorized),
     env_loads = loads_empty_object, env_writable = (\<lambda>p. True),
     env_program = (\<lambda>code. writes_nothing), env_stem = (\<lambda>p. p),
     env_completed = (\<lambda>images. images) \<rparr>"

definition plot_env :: environment where
  "plot_env = \<lparr> env_readable = (\<lambda>p. True), env_remote = (\<lambda>p. graph_reply),
     env_loads = loads_graph, env_writable = (\<lambda>p. True),
     env_program = (\<lambda>code. draws_plot), env_stem = (\<lambda>p. p),
     env_completed = (\<lambda>images. images) \<rparr>"

section \<open>Properties of the table extraction\<close>










section \<open>Properties of the polling client\<close>

lemma poll_iteration_Stop:
  "poll_iteration remote T I s now k = Stop y \<Longrightarrow> returned_ok remote k y"
  by (auto simp: poll_iteration_def returned_ok_def Let_def poll_finish_def
           split: if_splits http_reply.splits json.splits)

lemma poll_iteration_Again:
  "poll_iteration remote T I s now k = Again now' \<Longrightarrow>
   now - s \<le> T \<and> 0 \<le> I \<and> now' = now + I + int (fst (remote k))"
  by (auto simp: poll_iteration_def Let_def split: if_splits http_reply.splits json.splits)

lemma poll_iteration_Stop_time:
  "poll_iteration remote T I s now k = Stop y \<Longrightarrow> in_time remote T I s y"
  by (auto simp: poll_iteration_def in_time_def Let_def
           split: if_splits http_reply.splits json.splits)

text \<open>What holds of every result the loop returns follows by fixed-point induction.\<close>

lemma poll_loop_returned_ok:
  assumes "poll_loop remote T I s now k = Some y"
  shows "returned_ok remote k y"
proof (rule poll_loop.raw_induct
    [where P = "\<lambda>remote T I s now k y. returned_ok remote k y", OF _ assms])
  fix f :: "(nat \<Rightarrow> nat \<times> http_reply) \<Rightarrow> int \<Rightarrow> int \<Rightarrow> int \<Rightarrow> int \<Rightarrow> nat
     \<Rightarrow> ((exn + json) \<times> int \<times> nat) option" and remote T I s now k y
  assume IH: "\<And>remote T I s now k y. f remote T I s now k = Some y \<Longrightarrow> returned_ok remote k y"
  assume body: "(case poll_iteration remote T I s now k of
        Stop result \<Rightarrow> Some result
      | Again now' \<Rightarrow> f remote T I s now' (Suc k)) = Some y"
  show "returned_ok remote k y"
  proof (cases "poll_iteration remote T I s now k")
    case (Stop r)
    with body poll_iteration_Stop show ?thesis by auto
  next
    case (Again now')
    with body have "f remote T I s now' (Suc k) = Some y" by simp
    from IH[OF this] show ?thesis
      by (auto simp: returned_ok_def split: sum.splits prod.splits)
  qed
qed

lemma poll_loop_in_time:
  assumes "poll_loop remote T I s now k = Some y"
  shows "in_time remote T I s y"
proof (rule poll_loop.raw_induct
    [where P = "\<lambda>remote T I s now k y. in_time remote T I s y", OF _ assms])
  fix f :: "(nat \<Rightarrow> nat \<times> http_reply) \<Rightarrow> int \<Rightarrow> int \<Rightarrow> int \<Rightarrow> int \<Rightarrow> nat
     \<Rightarrow> ((exn + json) \<times> int \<times> nat) option" and remote T I s now k y
  assume IH: "\<And>remote T I s now k y. f remote T I s now k = Some y \<Longrightarrow> in_time remote T I s y"
  assume body: "(case poll_iteration remote T I s now k of
        Stop result \<Rightarrow> Some result
      | Again now' \<Rightarrow> f remote T I s now' (Suc k)) = Some y"
  show "in_time remote T I s y"
    using body IH poll_iteration_Stop_time by (cases "poll_iteration remote T I s now k") auto
qed

text \<open>
  The loop returns as soon as the clock moves between two deadline checks: the distance to
  the deadline is a measure that every turn of the loop decreases.
\<close>

lemma poll_loop_terminates:
  assumes adv: "0 < I \<or> (\<forall>j. 0 < fst (remote j))"
  shows "\<exists>y. poll_loop remote T I s now k = Some y"
proof (induction "nat (T - (now - s) + 1)" arbitrary: now k rule: less_induct)
  case less
  show ?case
  proof (cases "poll_iteration remote T I s now k")
    case (Stop y)
    then have "poll_loop remote T I s now k = Some y"
      by (subst poll_loop.simps) simp
    then show ?thesis by (rule exI)
  next
    case (Again now')
    from poll_iteration_Again[OF Again]
    have b: "now - s \<le> T" "0 \<le> I" "now' = now + I + int (fst (remote k))" by auto
    have "0 < I \<or> 0 < int (fst (remote k))"
    proof (rule disjE[OF adv])
      assume "0 < I"
      then show ?thesis by simp
    next
      assume "\<forall>j. 0 < fst (remote j)"
      then have "0 < fst (remote k)" by (rule spec)
      then show ?thesis by simp
    qed
    with b have "now < now'" by linarith
    with b have "nat (T - (now' - s) + 1) < nat (T - (now - s) + 1)" by linarith
    from less[OF this] obtain y where "poll_loop remote T I s now' (Suc k) = Some y" by blast
    with Again have "poll_loop remote T I s now k = Some y"
      by (subst poll_loop.simps) simp
    then show ?thesis by (rule exI)
  qed
qed

text \<open>
  C5. \<open>poll_until_complete\<close> returns a job result only when the last reply carries the
  status \<open>complete\<close> (so never a \<open>processing\<close> one) and a success flag that Python takes
  for true. At any turn of the loop whose deadline check passes, a \<open>complete\<close> reply whose
  success flag is false or absent ends the call with the job-failed exit carrying the reply's
  \<open>error\<close> (or \<open>Unknown error\<close>), and a reply whose status is none of \<open>complete\<close>,
  \<open>processing\<close> and \<open>None\<close> ends the call at once, with no further request: with the
  unexpected-status exit, or with the \<open>TypeError\<close> of the set lookup when the status is a
  list or a dict.
\<close>

theorem poll_outcomes:
  "(poll_until_complete remote timeout_s poll_interval_s start = Some (Inr r, t, n) \<longrightarrow>
      (\<exists>d c. r = JObj d \<and> 0 < n \<and> snd (remote (n - 1)) = Json c (JObj d)
           \<and> dict_get d ''status'' JNull = JStr ''complete''
           \<and> dict_get d ''status'' JNull \<noteq> JStr ''processing''
           \<and> truthy (dict_get d ''success'' (JBool False))))
   \<and> (now1 - start \<le> timeout_s \<and> 0 \<le> poll_interval_s \<and> snd (remote k1) = Json c1 (JObj d1)
       \<and> dict_get d1 ''status'' JNull = JStr ''complete''
       \<and> \<not> truthy (dict_get d1 ''success'' (JBool False)) \<longrightarrow>
        poll_loop remote timeout_s poll_interval_s start now1 k1 =
          Some (Inl (SystemExit (JobFailed (dict_get d1 ''error'' (JStr ''Unknown error'')))),
                now1 + poll_interval_s + int (fst (remote k1)), Suc k1))
   \<and> (now2 - start \<le> timeout_s \<and> 0 \<le> poll_interval_s \<and> snd (remote k2) = Json c2 (JObj d2)
       \<and> dict_get d2 ''status'' JNull \<notin> {JStr ''complete'', JStr ''processing'', JNull} \<longrightarrow>
        poll_loop remote timeout_s poll_interval_s start now2 k2 =
          Some (Inl (if unhashable (dict_get d2 ''status'' JNull) then TypeError
                     else SystemExit (UnexpectedStatus (dict_get d2 ''status'' JNull))),
                now2 + poll_interval_s + int (fst (remote k2)), Suc k2))"
proof (intro conjI impI)
  assume "poll_until_complete remote timeout_s poll_interval_s start = Some (Inr r, t, n)"
  then have "returned_ok remote 0 (Inr r, t, n)"
    unfolding poll_until_complete_def by (rule poll_loop_returned_ok)
  then show "\<exists>d c. r = JObj d \<and> 0 < n \<and> snd (remote (n - 1)) = Json c (JObj d)
           \<and> dict_get d ''status'' JNull = JStr ''complete''
           \<and> dict_get d ''status'' JNull \<noteq> JStr ''processing''
           \<and> truthy (dict_get d ''success'' (JBool False))"
    by (auto simp: returned_ok_def)
next
  assume "now1 - start \<le> timeout_s \<and> 0 \<le> poll_interval_s \<and> snd (remote k1) = Json c1 (JObj d1)
       \<and> dict_get d1 ''status'' JNull = JStr ''complete''
       \<and> \<not> truthy (dict_get d1 ''success'' (JBool False))"
  then show "poll_loop remote timeout_s poll_interval_s start now1 k1 =
          Some (Inl (SystemExit (JobFailed (dict_get d1 ''error'' (JStr ''Unknown error'')))),
                now1 + poll_interval_s + int (fst (remote k1)), Suc k1)"
    by (subst poll_loop.simps) (simp add: poll_iteration_def poll_finish_def Let_def)
next
  assume "now2 - start \<le> timeout_s \<and> 0 \<le> poll_interval_s \<and> snd (remote k2) = Json c2 (JObj d2)
       \<and> dict_get d2 ''status'' JNull \<notin> {JStr ''complete'', JStr ''processing'', JNull}"
  then show "poll_loop remote timeout_s poll_interval_s start now2 k2 =
          Some (Inl (if unhashable (dict_get d2 ''status'' JNull) then TypeError
                     else SystemExit (UnexpectedStatus (dict_get d2 ''status'' JNull))),
                now2 + poll_interval_s + int (fst (remote k2)), Suc k2)"
    by (subst poll_loop.simps) (simp add: poll_iteration_def Let_def)
qed

text \<open>
  A run on \<open>scripted_job\<close>, whose first reply is a finished job, whose second is a failed
  one and whose third has the status \<open>failed\<close>, which the client does not know.
\<close>

theorem poll_outcomes_witness:
  "poll_until_complete scripted_job 10 2 0 =
     Some (Inr (JObj [(''status'', JStr ''complete''), (''success'', JBool True)]), 2, 1)
   \<and> poll_loop scripted_job 10 2 0 2 1 = Some (Inl (SystemExit (JobFailed (JStr ''boom''))), 4, 2)
   \<and> poll_loop scripted_job 10 2 0 4 2 =
       Some (Inl (SystemExit (UnexpectedStatus (JStr ''failed''))), 6, 3)"
proof -
  have run: "poll_until_complete scripted_job 10 2 0 =
     Some (Inr (JObj [(''status'', JStr ''complete''), (''success'', JBool True)]), 2, 1)"
    unfolding poll_until_complete_def
    by (subst poll_loop.simps)
       (simp add: poll_iteration_def scripted_job_def dict_get_def poll_finish_def)
  show ?thesis
    using run poll_outcomes
      [of scripted_job 10 2 0
          "JObj [(''status'', JStr ''complete''), (''success'', JBool True)]" 2 1
          2 1 200 "[(''status'', JStr ''complete''), (''success'', JBool False),
                    (''error'', JStr ''boom'')]"
          4 2 200 "[(''status'', JStr ''failed'')]"]
    by (simp add: scripted_job_def dict_get_def)
qed

text \<open>
  C6, as the code has it. Whenever the clock moves between two deadline checks (the poll
  interval is positive, or every request takes time), \<open>poll_until_complete\<close> ends: with the
  timeout exit, with the \<open>ValueError\<close> of a negative sleep, or after a request. The deadline
  is only checked before the sleep, so a call that ends after a request ends at most one
  poll interval and the duration of that request after the deadline, not before it.
\<close>

theorem poll_terminates:
  assumes "0 < poll_interval_s \<or> (\<forall>j. 0 < fst (remote j))"
  shows "\<exists>r t n. poll_until_complete remote timeout_s poll_interval_s start = Some (r, t, n)
           \<and> (r = Inl (SystemExit PollTimedOut) \<or> r = Inl ValueError
              \<or> (0 < n \<and> t \<le> start + timeout_s + poll_interval_s + int (fst (remote (n - 1)))))"
proof -
  from poll_loop_terminates[OF assms] obtain y
    where y: "poll_loop remote timeout_s poll_interval_s start start 0 = Some y" by blast
  from poll_loop_in_time[OF y] y show ?thesis
    by (cases y) (auto simp: in_time_def poll_until_complete_def)
qed

theorem poll_terminates_witness:
  "(0 < (2::int) \<or> (\<forall>j. 0 < fst (complete_at_once j))) \<and>
   (\<exists>r t n. poll_until_complete complete_at_once 1 2 0 = Some (r, t, n))"
  using poll_terminates [of 2 complete_at_once 1 0] by auto

text \<open>
  With a timeout of one tick and a poll interval of two, a job that is complete at the first
  request is returned at tick 2, after the timeout has elapsed, and not as a timeout.
\<close>

theorem poll_returns_after_timeout:
  "poll_until_complete complete_at_once 1 2 0 =
     Some (Inr (JObj [(''status'', JStr ''complete''), (''success'', JBool True)]), 2, 1)
   \<and> (2::int) - 0 > 1"
  unfolding poll_until_complete_def
  by (subst poll_loop.simps)
     (simp add: poll_iteration_def complete_at_once_def dict_get_def poll_finish_def)

section \<open>Properties of the extraction artifact\<close>

lemma extraction_scan_first:
  "i < length keys \<Longrightarrow> is_dict_or_list (dict_get result (keys ! i) JNull) \<Longrightarrow>
   (\<forall>j<i. \<not> is_dict_or_list (dict_get result (keys ! j) JNull)) \<Longrightarrow>
   extraction_scan keys result = Some (dict_get result (keys ! i) JNull)"
proof (induction keys arbitrary: i)
  case Nil
  then show ?case by simp
next
  case (Cons key keys)
  show ?case
  proof (cases i)
    case 0
    with Cons.prems show ?thesis by (simp add: Let_def)
  next
    case (Suc i')
    from Cons.prems(3) Suc have first: "\<not> is_dict_or_list (dict_get result key JNull)"
      by force
    have "\<forall>j<i'. \<not> is_dict_or_list (dict_get result (keys ! j) JNull)"
    proof (intro allI impI)
      fix j assume "j < i'"
      then have "Suc j < i" using Suc by simp
      with Cons.prems(3) have "\<not> is_dict_or_list (dict_get result ((key # keys) ! Suc j) JNull)"
        by blast
      then show "\<not> is_dict_or_list (dict_get result (keys ! j) JNull)" by simp
    qed
    with Cons.IH[of i'] Cons.prems Suc
    have "extraction_scan keys result = Some (dict_get result (keys ! i') JNull)" by simp
    with first Suc show ?thesis by (simp add: Let_def)
  qed
qed

lemma extraction_scan_none:
  "(\<forall>key \<in> set keys. \<not> is_dict_or_list (dict_get result key JNull)) \<Longrightarrow>
   extraction_scan keys result = None"
  by (induction keys) (simp_all add: Let_def)

text \<open>
  C9, as the code has it. With a schema supplied, the block scans the keys \<open>json\<close>,
  \<open>structured_output\<close>, \<open>structured_data\<close>, \<open>extractions\<close>, \<open>extracted\<close> in this
  order and writes the value of the first key that holds a dict or a list, empty or not, to
  the extraction file, whose parsed content is then that value; every other file is left as
  it was. When no key holds a dict or a list, and when no schema was supplied, nothing is
  written.
\<close>

theorem save_extraction_artifact:
  "(i < length extraction_keys
      \<and> is_dict_or_list (dict_get result (extraction_keys ! i) JNull)
      \<and> (\<forall>j<i. \<not> is_dict_or_list (dict_get result (extraction_keys ! j) JNull)) \<longrightarrow>
    save_extraction out_dir base_name (Some schema) result fs =
      fs(extra_json_path out_dir base_name \<mapsto> JsonText (dict_get result (extraction_keys ! i) JNull)))
   \<and> ((\<forall>key \<in> set extraction_keys. \<not> is_dict_or_list (dict_get result key JNull)) \<longrightarrow>
      save_extraction out_dir base_name (Some schema) result fs = fs)
   \<and> save_extraction out_dir base_name None result fs = fs
   \<and> extraction_keys =
       [''json'', ''structured_output'', ''structured_data'', ''extractions'', ''extracted'']"
proof (intro conjI impI)
  assume "i < length extraction_keys
      \<and> is_dict_or_list (dict_get result (extraction_keys ! i) JNull)
      \<and> (\<forall>j<i. \<not> is_dict_or_list (dict_get result (extraction_keys ! j) JNull))"
  then have "extraction_scan extraction_keys result
      = Some (dict_get result (extraction_keys ! i) JNull)"
    by (intro extraction_scan_first) simp_all
  then show "save_extraction out_dir base_name (Some schema) result fs =
      fs(extra_json_path out_dir base_name \<mapsto> JsonText (dict_get result (extraction_keys ! i) JNull))"
    by (simp add: save_extraction_def save_json_def)
next
  assume "\<forall>key \<in> set extraction_keys. \<not> is_dict_or_list (dict_get result key JNull)"
  then have "extraction_scan extraction_keys result = None" by (rule extraction_scan_none)
  then show "save_extraction out_dir base_name (Some schema) result fs = fs"
    by (simp add: save_extraction_def)
next
  show "save_extraction out_dir base_name None result fs = fs"
    by (simp add: save_extraction_def)
next
  show "extraction_keys =
       [''json'', ''structured_output'', ''structured_data'', ''extractions'', ''extracted'']"
    by (simp add: extraction_keys_def)
qed

theorem save_extraction_artifact_witness:
  "save_extraction ''out'' ''doc'' (Some ''{}'')
     [(''json'', JStr ''text''), (''structured_output'', JArr [JNum 1])] Map.empty
     = Map.empty(extra_json_path ''out'' ''doc'' \<mapsto> JsonText (JArr [JNum 1]))
   \<and> save_extraction ''out'' ''doc'' (Some ''{}'') [(''markdown'', JStr ''text'')] Map.empty
     = Map.empty"
proof -
  let ?r1 = "[(''json'', JStr ''text''), (''structured_output'', JArr [JNum 1])]"
  let ?r2 = "[(''markdown'', JStr ''text'')]"
  have h1: "1 < length extraction_keys
      \<and> is_dict_or_list (dict_get ?r1 (extraction_keys ! 1) JNull)
      \<and> (\<forall>j<1. \<not> is_dict_or_list (dict_get ?r1 (extraction_keys ! j) JNull))"
    by (simp add: extraction_keys_def dict_get_def)
  have h2: "\<forall>key \<in> set extraction_keys. \<not> is_dict_or_list (dict_get ?r2 key JNull)"
    by (simp add: extraction_keys_def dict_get_def)
  note t1 = save_extraction_artifact [of 1 ?r1 "''out''" "''doc''" "''{}''" Map.empty]
  note t2 = save_extraction_artifact [of 0 ?r2 "''out''" "''doc''" "''{}''" Map.empty]
  have a: "save_extraction ''out'' ''doc'' (Some ''{}'') ?r1 Map.empty =
      Map.empty(extra_json_path ''out'' ''doc'' \<mapsto> JsonText (dict_get ?r1 (extraction_keys ! 1) JNull))"
    using t1 h1 by blast
  have b: "save_extraction ''out'' ''doc'' (Some ''{}'') ?r2 Map.empty = Map.empty"
    using t2 h2 by blast
  have "dict_get ?r1 (extraction_keys ! 1) JNull = JArr [JNum 1]"
    by (simp add: extraction_keys_def dict_get_def)
  with a b show ?thesis by simp
qed

text \<open>
  The scan tests the type of a value, not whether it is empty: with an empty list under
  \<open>json\<close> and a non-empty one under \<open>structured_output\<close>, the artifact is the empty
  list.
\<close>

theorem save_extraction_keeps_empty_value:
  "save_extraction ''out'' ''doc'' (Some ''{}'')
     [(''json'', JArr []), (''structured_output'', JArr [JNum 1])] Map.empty
     (extra_json_path ''out'' ''doc'') = Some (JsonText (JArr []))"
  by (simp add: save_extraction_def save_json_def extraction_keys_def dict_get_def)

section \<open>Properties of the vision client\<close>




lemma always_timeout_run:
  "call_gpt_vision_json loads_empty_object True always_timeout
     = (Inl (SystemExit GptTimeout),
        \<lparr> requests_sent = [base_body, base_body, base_body], sleeps = [1, 2] \<rparr>)"
  unfolding call_gpt_vision_json_def
  apply (subst attempt_loop.simps, simp add: max_attempts_def attempt_once_def always_timeout_def retry_or_def backoff_def)
  apply (subst attempt_loop.simps, simp add: max_attempts_def attempt_once_def always_timeout_def retry_or_def backoff_def)
  apply (subst attempt_loop.simps, simp add: max_attempts_def attempt_once_def always_timeout_def retry_or_def backoff_def)
  done











text \<open>
  C4. When the reply to an attempt before the third has a status of 400 or more and its
  error names the temperature field as unsupported, the loop goes on to the next attempt with
  the temperature removed from the body, after the sleep of that attempt; the same holds for
  the response-format field, whose removal also puts the strict-JSON instruction in front of
  the messages. The retry is the next attempt of the three: on the third attempt the call
  ends with the API-error exit instead.
\<close>

theorem unsupported_field_is_dropped:
  "(attempt < max_attempts \<and> remote attempt body = Json status payload \<and> 400 \<le> status
      \<and> param_and_message (error_of payload) = Inr (param, message)
      \<and> names_unsupported ''temperature'' param message = Inr True \<longrightarrow>
    attempt_loop json_loads remote attempt body resp tr =
      attempt_loop json_loads remote (attempt + 1) (body\<lparr> has_temperature := False \<rparr>) (Some status)
        (tr\<lparr> requests_sent := requests_sent tr @ [body],
              sleeps := sleeps tr @ [backoff attempt] \<rparr>))
   \<and> (attempt1 < max_attempts \<and> remote1 attempt1 body1 = Json status1 payload1 \<and> 400 \<le> status1
      \<and> param_and_message (error_of payload1) = Inr (param1, message1)
      \<and> names_unsupported ''temperature'' param1 message1 = Inr False
      \<and> names_unsupported ''response_format'' param1 message1 = Inr True \<longrightarrow>
    attempt_loop json_loads remote1 attempt1 body1 resp1 tr1 =
      attempt_loop json_loads remote1 (attempt1 + 1)
        (if has_response_format body1
         then body1\<lparr> has_response_format := False,
                     chat_messages := StrictJsonInstruction # chat_messages body1 \<rparr>
         else body1)
        (Some status1)
        (tr1\<lparr> requests_sent := requests_sent tr1 @ [body1],
               sleeps := sleeps tr1 @ [backoff attempt1] \<rparr>))
   \<and> (remote2 max_attempts body2 = Json status2 payload2 \<and> 400 \<le> status2
      \<and> param_and_message (error_of payload2) = Inr (param2, message2)
      \<and> (names_unsupported ''temperature'' param2 message2 = Inr True
          \<or> names_unsupported ''temperature'' param2 message2 = Inr False
             \<and> names_unsupported ''response_format'' param2 message2 = Inr True) \<longrightarrow>
    attempt_loop json_loads remote2 max_attempts body2 resp2 tr2 =
      (Inl (SystemExit (GptError payload2)), tr2\<lparr> requests_sent := requests_sent tr2 @ [body2] \<rparr>))"
proof (intro conjI impI)
  assume a: "attempt < max_attempts \<and> remote attempt body = Json status payload \<and> 400 \<le> status
      \<and> param_and_message (error_of payload) = Inr (param, message)
      \<and> names_unsupported ''temperature'' param message = Inr True"
  have same: "(if has_temperature body then body\<lparr> has_temperature := False \<rparr> else body)
      = body\<lparr> has_temperature := False \<rparr>" by simp
  from a have "attempt_once json_loads (remote attempt body) attempt body resp
      = Retry (body\<lparr> has_temperature := False \<rparr>) (Some status)"
    by (simp add: attempt_once_def retry_or_def same)
  with a show "attempt_loop json_loads remote attempt body resp tr =
      attempt_loop json_loads remote (attempt + 1) (body\<lparr> has_temperature := False \<rparr>) (Some status)
        (tr\<lparr> requests_sent := requests_sent tr @ [body],
              sleeps := sleeps tr @ [backoff attempt] \<rparr>)"
    by (subst attempt_loop.simps) (simp add: Let_def)
next
  assume a: "attempt1 < max_attempts \<and> remote1 attempt1 body1 = Json status1 payload1 \<and> 400 \<le> status1
      \<and> param_and_message (error_of payload1) = Inr (param1, message1)
      \<and> names_unsupported ''temperature'' param1 message1 = Inr False
      \<and> names_unsupported ''response_format'' param1 message1 = Inr True"
  then have "attempt_once json_loads (remote1 attempt1 body1) attempt1 body1 resp1
      = Retry (if has_response_format body1
         then body1\<lparr> has_response_format := False,
                     chat_messages := StrictJsonInstruction # chat_messages body1 \<rparr>
         else body1) (Some status1)"
    by (simp add: attempt_once_def retry_or_def)
  with a show "attempt_loop json_loads remote1 attempt1 body1 resp1 tr1 =
      attempt_loop json_loads remote1 (attempt1 + 1)
        (if has_response_format body1
         then body1\<lparr> has_response_format := False,
                     chat_messages := StrictJsonInstruction # chat_messages body1 \<rparr>
         else body1)
        (Some status1)
        (tr1\<lparr> requests_sent := requests_sent tr1 @ [body1],
               sleeps := sleeps tr1 @ [backoff attempt1] \<rparr>)"
    by (subst attempt_loop.simps) (simp add: Let_def)
next
  assume a: "remote2 max_attempts body2 = Json status2 payload2 \<and> 400 \<le> status2
      \<and> param_and_message (error_of payload2) = Inr (param2, message2)
      \<and> (names_unsupported ''temperature'' param2 message2 = Inr True
          \<or> names_unsupported ''temperature'' param2 message2 = Inr False
             \<and> names_unsupported ''response_format'' param2 message2 = Inr True)"
  then have "attempt_once json_loads (remote2 max_attempts body2) max_attempts body2 resp2
      = Finish (Inl (SystemExit (GptError payload2)))"
    by (auto simp: attempt_once_def retry_or_def)
  then show "attempt_loop json_loads remote2 max_attempts body2 resp2 tr2 =
      (Inl (SystemExit (GptError payload2)), tr2\<lparr> requests_sent := requests_sent tr2 @ [body2] \<rparr>)"
    by (subst attempt_loop.simps) (simp add: Let_def)
qed

text \<open>
  The scenario of the specification: HTTP 400 with the message
  \<open>Unsupported parameter: temperature\<close> on the first attempt, success on the second. The
  call returns the parsed reply after two requests, the second without the temperature.
\<close>

theorem unsupported_field_is_dropped_witness:
  "call_gpt_vision_json loads_empty_object True temperature_rejected
     = (Inr (JObj []),
        \<lparr> requests_sent = [base_body, base_body\<lparr> has_temperature := False \<rparr>], sleeps = [1] \<rparr>)"
proof -
  let ?payload = "JObj [(''error'', JObj [(''message'', JStr ''Unsupported parameter: temperature'')])]"
  let ?tr0 = "\<lparr> requests_sent = [], sleeps = [] \<rparr>"
  have h: "1 < max_attempts \<and> temperature_rejected 1 base_body = Json 400 ?payload \<and> (400::nat) \<le> 400
      \<and> param_and_message (error_of ?payload)
          = Inr (JNull, JStr ''Unsupported parameter: temperature'')
      \<and> names_unsupported ''temperature'' JNull (JStr ''Unsupported parameter: temperature'')
          = Inr True"
    by (simp add: max_attempts_def temperature_rejected_def base_body_def param_and_message_def
          error_of_def dict_get_def names_unsupported_def lower_def lower_char_def)
  have step: "attempt_loop loads_empty_object temperature_rejected 1 base_body None ?tr0 =
      attempt_loop loads_empty_object temperature_rejected (1 + 1)
        (base_body\<lparr> has_temperature := False \<rparr>) (Some 400)
        (?tr0\<lparr> requests_sent := requests_sent ?tr0 @ [base_body],
               sleeps := sleeps ?tr0 @ [backoff 1] \<rparr>)"
    using unsupported_field_is_dropped
      [where attempt = 1 and remote = temperature_rejected and body = base_body and status = 400
         and payload = ?payload and param = JNull
         and message = "JStr ''Unsupported parameter: temperature''"
         and json_loads = loads_empty_object and resp = None and tr = ?tr0] h
    by blast
  have second: "attempt_loop loads_empty_object temperature_rejected (1 + 1)
        (base_body\<lparr> has_temperature := False \<rparr>) (Some 400)
        (?tr0\<lparr> requests_sent := requests_sent ?tr0 @ [base_body],
               sleeps := sleeps ?tr0 @ [backoff 1] \<rparr>)
      = (Inr (JObj []),
        \<lparr> requests_sent = [base_body, base_body\<lparr> has_temperature := False \<rparr>], sleeps = [1] \<rparr>)"
    by (subst attempt_loop.simps)
       (simp add: max_attempts_def temperature_rejected_def base_body_def attempt_once_def
          parse_content_def content_of_def dict_get_def loads_empty_object_def backoff_def)
  show ?thesis
    unfolding call_gpt_vision_json_def using step second by simp
qed

section \<open>Properties of the sandbox\<close>

lemma write_all_append: "write_all (ws @ vs) fs = write_all vs (write_all ws fs)"
proof (induction ws arbitrary: fs)
  case Nil
  show ?case by simp
next
  case (Cons w ws)
  obtain path content where w: "w = (path, content)" by (cases w)
  show ?case unfolding w by (simp only: append_Cons write_all.simps Cons.IH)
qed

lemma exec_child_files:
  "child_files (exec_child code output_path fs) =
     write_all (module_writes code @
                (if module_end code = Completes \<and> defines_recreate_plot code
                 then recreate_writes code output_path else [])) fs"
  by (cases "module_end code"; cases "defines_recreate_plot code";
      cases "recreate_end code output_path")
     (simp_all add: exec_child_def Let_def write_all_append)

lemma execute_files:
  "snd (execute_generated_code code output_path fs) = child_files (exec_child code output_path fs)"
  by (cases "module_end code"; cases "defines_recreate_plot code";
      cases "recreate_end code output_path")
     (simp_all add: execute_generated_code_def exec_child_def Let_def)

lemma execute_success:
  "fst (fst (execute_generated_code code output_path fs)) =
     (module_end code = Completes \<and> defines_recreate_plot code
      \<and> recreate_end code output_path = Completes)"
  by (cases "module_end code"; cases "defines_recreate_plot code";
      cases "recreate_end code output_path")
     (simp_all add: execute_generated_code_def exec_child_def Let_def)

lemma execute_error:
  "\<not> fst (fst (execute_generated_code code output_path fs)) \<Longrightarrow>
   snd (fst (execute_generated_code code output_path fs)) \<noteq> None"
  by (cases "module_end code"; cases "defines_recreate_plot code";
      cases "recreate_end code output_path")
     (simp_all add: execute_generated_code_def exec_child_def Let_def)

text \<open>
  C7, as the code has it. \<open>execute_generated_code\<close> reports success exactly when the child
  ran the module body and \<open>recreate_plot(output_path)\<close> to completion before the timeout; in
  every other case (a timeout, an exception in the child, a missing \<open>recreate_plot\<close>, a
  child that leaves no message) it reports failure with an error text. It neither checks
  that the output file exists nor removes a file: the files after the call are the files
  before it with whatever the generated code wrote, whatever the outcome. When the code writes
  nothing, the files are unchanged.
\<close>

theorem sandbox_outcome:
  "fst (fst (execute_generated_code code output_path fs)) =
     (module_end code = Completes \<and> defines_recreate_plot code
      \<and> recreate_end code output_path = Completes)
   \<and> (\<not> fst (fst (execute_generated_code code output_path fs)) \<longrightarrow>
        snd (fst (execute_generated_code code output_path fs)) \<noteq> None)
   \<and> (module_end code = Completes \<and> \<not> defines_recreate_plot code \<longrightarrow>
        fst (execute_generated_code code output_path fs)
          = (False, Some ''No recreate_plot(output_path: str) found''))
   \<and> (module_end code = Overruns \<longrightarrow>
        fst (execute_generated_code code output_path fs) = (False, Some ''Execution timed out''))
   \<and> snd (execute_generated_code code output_path fs) =
        write_all (module_writes code @
                   (if module_end code = Completes \<and> defines_recreate_plot code
                    then recreate_writes code output_path else [])) fs
   \<and> (module_writes code = [] \<and> recreate_writes code output_path = [] \<longrightarrow>
        snd (execute_generated_code code output_path fs) = fs)"
proof (intro conjI impI)
  show "fst (fst (execute_generated_code code output_path fs)) =
     (module_end code = Completes \<and> defines_recreate_plot code
      \<and> recreate_end code output_path = Completes)"
    by (rule execute_success)
next
  assume "\<not> fst (fst (execute_generated_code code output_path fs))"
  then show "snd (fst (execute_generated_code code output_path fs)) \<noteq> None"
    by (rule execute_error)
next
  assume "module_end code = Completes \<and> \<not> defines_recreate_plot code"
  then show "fst (execute_generated_code code output_path fs)
          = (False, Some ''No recreate_plot(output_path: str) found'')"
    by (simp add: execute_generated_code_def exec_child_def Let_def)
next
  assume "module_end code = Overruns"
  then show "fst (execute_generated_code code output_path fs) = (False, Some ''Execution timed out'')"
    by (simp add: execute_generated_code_def exec_child_def Let_def)
next
  show "snd (execute_generated_code code output_path fs) =
        write_all (module_writes code @
                   (if module_end code = Completes \<and> defines_recreate_plot code
                    then recreate_writes code output_path else [])) fs"
    by (simp only: execute_files exec_child_files)
next
  assume "module_writes code = [] \<and> recreate_writes code output_path = []"
  then show "snd (execute_generated_code code output_path fs) = fs"
    by (simp add: execute_files exec_child_files)
qed

theorem sandbox_outcome_witness:
  "fst (execute_generated_code draws_plot ''out.png'' Map.empty) = (True, None)
   \<and> snd (execute_generated_code draws_plot ''out.png'' Map.empty)
       = Map.empty(''out.png'' \<mapsto> Raw ''png'')
   \<and> fst (execute_generated_code (writes_nothing\<lparr> defines_recreate_plot := False \<rparr>)
            ''out.png'' Map.empty)
       = (False, Some ''No recreate_plot(output_path: str) found'')
   \<and> snd (execute_generated_code (writes_nothing\<lparr> defines_recreate_plot := False \<rparr>)
            ''out.png'' Map.empty) = Map.empty
   \<and> fst (execute_generated_code (writes_nothing\<lparr> module_end := Overruns \<rparr>)
            ''out.png'' Map.empty)
       = (False, Some ''Execution timed out'')"
  using sandbox_outcome [of draws_plot "''out.png''" Map.empty]
    sandbox_outcome [of "writes_nothing\<lparr> defines_recreate_plot := False \<rparr>" "''out.png''" Map.empty]
    sandbox_outcome [of "writes_nothing\<lparr> module_end := Overruns \<rparr>" "''out.png''" Map.empty]
  by (simp add: draws_plot_def writes_nothing_def execute_generated_code_def exec_child_def
        Let_def)

text \<open>
  A \<open>recreate_plot\<close> that returns without writing gives success and no file at the requested
  path; one that writes the file and then raises gives failure and leaves the file behind.
\<close>

theorem sandbox_files_counterexample:
  "fst (execute_generated_code writes_nothing ''out.png'' Map.empty) = (True, None)
   \<and> snd (execute_generated_code writes_nothing ''out.png'' Map.empty) ''out.png'' = None
   \<and> fst (execute_generated_code writes_then_raises ''out.png'' Map.empty)
       = (False, Some ''Execution error'')
   \<and> snd (execute_generated_code writes_then_raises ''out.png'' Map.empty) ''out.png''
       = Some (Raw ''partial'')"
  by (simp add: execute_generated_code_def exec_child_def writes_nothing_def
        writes_then_raises_def Let_def)

section \<open>Properties of the per-image step and the batch\<close>

lemma dict_get_update_other:
  "key \<noteq> k \<Longrightarrow> dict_get (AList.update k v d) key dflt = dict_get d key dflt"
  by (simp add: dict_get_def update_conv')

lemma save_result_keeps:
  assumes "save_result env json_path result0 fs = Inr (result, fs1)"
  shows "dict_get result ''is_graph'' JNull = dict_get result0 ''is_graph'' JNull
       \<and> dict_get result ''python_code'' JNull = dict_get result0 ''python_code'' JNull"
  using assms
  by (auto simp: save_result_def Let_def dict_get_update_other split: if_splits json.splits)

lemma is_str_str_of: "is_str j \<Longrightarrow> j = JStr (str_of j)"
  by (cases j) simp_all

lemma graph_reply_run:
  "fst (call_gpt_vision_json loads_graph True graph_reply)
     = Inr (JObj [(''is_graph'', JBool True), (''python_code'', JStr ''plot'')])"
  unfolding call_gpt_vision_json_def
  by (subst attempt_loop.simps)
     (simp add: max_attempts_def attempt_once_def graph_reply_def parse_content_def
        content_of_def dict_get_def loads_graph_def)

lemma unauthorized_run:
  "fst (call_gpt_vision_json loads_empty_object True unauthorized)
     = Inl (SystemExit (GptError (JObj [(''error'', JObj [(''message'', JStr ''bad key'')])])))"
  unfolding call_gpt_vision_json_def
  by (subst attempt_loop.simps)
     (simp add: max_attempts_def attempt_once_def unauthorized_def error_of_def
        param_and_message_def dict_get_def names_unsupported_def lower_def lower_char_def)

lemma plot_paths:
  "json_path_of plot_env ''out'' ''a.png'' = ''out/a.png.graph.json''"
  "recon_path_of plot_env ''out'' ''a.png'' = ''out/a.png.reconstructed.png''"
  by (simp_all add: json_path_of_def recon_path_of_def plot_env_def path_join_def
        sanitize_filename_def allowed_char_def)

lemma plot_classified:
  "classify_result plot_env ''a.png''
     = Inr [(''is_graph'', JBool True), (''python_code'', JStr ''plot'')]"
  by (simp add: classify_result_def plot_env_def graph_reply_run setdefault_def)

lemma plot_run:
  "executions (process plot_env ''out'' True ''a.png'' Map.empty)
     = [(''plot'', ''out/a.png.reconstructed.png'')]
   \<and> outcome (process plot_env ''out'' True ''a.png'' Map.empty)
     = Inr \<lparr> entry_image = ''a.png'', entry_json = Some ''out/a.png.graph.json'',
             entry_reconstructed = Some ''out/a.png.reconstructed.png'', entry_is_graph = True,
             entry_graph_type = JNull, entry_error = JNull \<rparr>"
  by (simp add: process_def plot_classified plot_paths Let_def save_result_def dict_get_def
        execute_generated_code_def exec_child_def)
     (simp add: plot_env_def draws_plot_def)

text \<open>
  C8. In \<open>_process\<close> the sandbox runs only when the execute flag is set, the
  classification's \<open>is_graph\<close> is true (whence the entry's \<open>is_graph\<close>) and its
  \<open>python_code\<close> is a string; it then runs once, on that code and the reconstruction path
  of the image. The entry's \<open>reconstructed\<close> field is populated, with that path, if and
  only if the sandbox ran and reported success.
\<close>

theorem process_execution_and_reconstruction:
  "(executions (process env out_dir execute img_path fs) \<noteq> [] \<longrightarrow>
      execute
      \<and> (\<exists>result code entry.
           classify_result env img_path = Inr result
           \<and> truthy (dict_get result ''is_graph'' JNull)
           \<and> dict_get result ''python_code'' JNull = JStr code
           \<and> executions (process env out_dir execute img_path fs)
               = [(code, recon_path_of env out_dir img_path)]
           \<and> outcome (process env out_dir execute img_path fs) = Inr entry
           \<and> entry_is_graph entry))
   \<and> (outcome (process env out_dir execute img_path fs) = Inr entry1 \<longrightarrow>
        (entry_reconstructed entry1 \<noteq> None) =
          (\<exists>code. executions (process env out_dir execute img_path fs)
                     = [(code, recon_path_of env out_dir img_path)]
                 \<and> fst (fst (execute_generated_code (env_program env code)
                               (recon_path_of env out_dir img_path) fs1)))
        \<and> (entry_reconstructed entry1 = None
           \<or> entry_reconstructed entry1 = Some (recon_path_of env out_dir img_path)))"
proof (cases "classify_result env img_path")
  case (Inl exc)
  then show ?thesis by (simp add: process_def Let_def)
next
  case (Inr result0)
  show ?thesis
  proof (cases "save_result env (json_path_of env out_dir img_path) result0 fs")
    case (Inl exc)
    with Inr show ?thesis by (simp add: process_def Let_def)
  next
    case saved: (Inr pair)
    obtain result fs' where pair: "pair = (result, fs')" by (cases pair)
    note keeps = save_result_keeps[OF saved[unfolded pair]]
    let ?code = "dict_get result ''python_code'' JNull"
    let ?attempted = "execute \<and> truthy (dict_get result ''is_graph'' JNull) \<and> is_str ?code"
    show ?thesis
    proof (cases ?attempted)
      case False
      with Inr saved pair show ?thesis
        by (auto simp: process_def Let_def)
    next
      case True
      then have code: "?code = JStr (str_of ?code)" by (simp add: is_str_str_of)
      obtain ok err fs2 where run:
        "execute_generated_code (env_program env (str_of ?code))
           (recon_path_of env out_dir img_path) fs' = ((ok, err), fs2)"
        by (metis prod.exhaust)
      have "ok = fst (fst (execute_generated_code (env_program env (str_of ?code))
           (recon_path_of env out_dir img_path) fs'))"
        using run by simp
      also have "\<dots> = fst (fst (execute_generated_code (env_program env (str_of ?code))
           (recon_path_of env out_dir img_path) fs1))"
        by (simp only: execute_success)
      finally have ok: "ok = fst (fst (execute_generated_code (env_program env (str_of ?code))
           (recon_path_of env out_dir img_path) fs1))" .
      from True Inr saved pair run keeps code ok show ?thesis
        by (auto simp: process_def Let_def)
    qed
  qed
qed

theorem process_execution_and_reconstruction_witness:
  "executions (process plot_env ''out'' True ''a.png'' Map.empty)
     = [(''plot'', ''out/a.png.reconstructed.png'')]
   \<and> outcome (process plot_env ''out'' True ''a.png'' Map.empty)
     = Inr \<lparr> entry_image = ''a.png'', entry_json = Some ''out/a.png.graph.json'',
             entry_reconstructed = Some ''out/a.png.reconstructed.png'', entry_is_graph = True,
             entry_graph_type = JNull, entry_error = JNull \<rparr>
   \<and> fst (fst (execute_generated_code (env_program plot_env ''plot'')
                 ''out/a.png.reconstructed.png'' Map.empty))"
  using plot_run
    process_execution_and_reconstruction
      [of plot_env "''out''" True "''a.png''" Map.empty
          "\<lparr> entry_image = ''a.png'', entry_json = Some ''out/a.png.graph.json'',
             entry_reconstructed = Some ''out/a.png.reconstructed.png'', entry_is_graph = True,
             entry_graph_type = JNull, entry_error = JNull \<rparr>" Map.empty]
  by (simp add: plot_paths)

text \<open>
  C2 fails on the code. Against an endpoint that never answers in time,
  \<open>call_gpt_vision_json\<close> ends with \<open>raise SystemExit\<close> on the third timeout. The
  \<open>except Exception\<close> clause of \<open>_process\<close> does not catch \<open>SystemExit\<close>, so
  \<open>_process\<close> raises it instead of producing a result with \<open>is_graph\<close> false and an
  error.
\<close>

theorem process_lets_timeout_exit_through:
  "outcome (process timeout_env ''out'' False ''a.png'' Map.empty) = Inl (SystemExit GptTimeout)"
  by (simp add: process_def classify_result_def timeout_env_def always_timeout_run Let_def)

lemma rejected_process:
  "outcome (process rejecting_env ''out'' False p fs)
     = Inl (SystemExit (GptError (JObj [(''error'', JObj [(''message'', JStr ''bad key'')])])))"
  by (simp add: process_def classify_result_def rejecting_env_def unauthorized_run Let_def)

text \<open>
  C1 fails on the code for the same reason. With two images and an endpoint that rejects
  every request with HTTP 401, the first \<open>_process\<close> raises \<open>SystemExit\<close>; the
  sequential branch has no handler, and the \<open>except Exception\<close> clause around
  \<open>fut.result()\<close> of the pool branch does not catch it. In both branches the call ends
  with the exception and returns no summary.
\<close>

theorem batch_aborted_by_rejected_call:
  "fst (detect_and_reconstruct_graphs rejecting_env [''a.png'', ''b.png''] ''out'' False None 1
          Map.empty)
     = Inl (SystemExit (GptError (JObj [(''error'', JObj [(''message'', JStr ''bad key'')])])))
   \<and> fst (detect_and_reconstruct_graphs rejecting_env [''a.png'', ''b.png''] ''out'' False None 3
            Map.empty)
     = Inl (SystemExit (GptError (JObj [(''error'', JObj [(''message'', JStr ''bad key'')])])))"
proof -
  have seq: "fst (sequential rejecting_env ''out'' False [''a.png'', ''b.png''] [] Map.empty)
     = Inl (SystemExit (GptError (JObj [(''error'', JObj [(''message'', JStr ''bad key'')])])))"
    by (simp add: rejected_process Let_def)
  have "env_completed rejecting_env [''a.png'', ''b.png''] = [''a.png'', ''b.png'']"
    by (simp add: rejecting_env_def)
  then have pool: "collect (fst (run_workers rejecting_env ''out'' False
                      (env_completed rejecting_env [''a.png'', ''b.png'']) Map.empty)) []
     = Inl (SystemExit (GptError (JObj [(''error'', JObj [(''message'', JStr ''bad key'')])])))"
    by (simp add: rejected_process Let_def split_beta)
  from seq pool show ?thesis
    by (simp add: detect_and_reconstruct_graphs_def Let_def split_beta)
qed

text \<open>
  What does hold of the two handlers: a call that ends with an \<open>Exception\<close> becomes a
  result with \<open>is_graph\<close> false and an error, and the pool branch records one entry per
  image as long as no worker raises anything but an \<open>Exception\<close>.
\<close>

lemma classify_result_catches:
  assumes "fst (call_gpt_vision_json (env_loads env) (env_readable env img_path)
                  (env_remote env img_path)) = Inl exc"
    and "is_Exception exc"
  shows "classify_result env img_path
           = Inr [(''is_graph'', JBool False), (''error'', JStr ''GPT call failed'')]"
  using assms by (simp add: classify_result_def)

lemma run_workers_length:
  "length (fst (run_workers env out_dir execute images fs)) = length images"
  by (induction images arbitrary: fs) (simp_all add: Let_def split_beta)

lemma collect_all_entries:
  assumes "\<forall>future \<in> set futures. \<forall>exc. snd future = Inl exc \<longrightarrow> is_Exception exc"
  shows "\<exists>entries. collect futures summary = Inr entries
           \<and> length entries = length summary + length futures"
  using assms
proof (induction futures summary rule: collect.induct)
  case (1 summary)
  then show ?case by simp
next
  case (2 p entry futures summary)
  then show ?case by simp
next
  case (3 p exc futures summary)
  then show ?case by simp
qed

lemma pool_branch_one_entry_per_image:
  assumes "1 < concurrency"
    and "length (env_completed env images) = length images"
    and "env_writable env (path_join out_dir ''summary.json'')"
    and "\<forall>future \<in> set (fst (run_workers env out_dir execute (env_completed env images) fs)).
           \<forall>exc. snd future = Inl exc \<longrightarrow> is_Exception exc"
  shows "\<exists>res. fst (detect_and_reconstruct_graphs env images out_dir execute None concurrency fs)
                  = Inr res
               \<and> count res = length images \<and> length (summary_entries res) = length images"
proof -
  from collect_all_entries[OF assms(4), of "[]"] obtain entries where
    e: "collect (fst (run_workers env out_dir execute (env_completed env images) fs)) [] = Inr entries"
       "length entries = length images"
    by (auto simp: run_workers_length assms(2))
  with assms(1,3) show ?thesis
    by (simp add: detect_and_reconstruct_graphs_def Let_def split_beta)
qed

end
